theory Spec2Isabelle
  imports Main "HOL-Library.Sublist" "HOL-Library.Multiset" "HOL-Library.Word"
begin

section \<open>Data model of main.go\<close>

text \<open>
  The structs of main.go. Go strings are byte strings, here \<open>string\<close>. A Go
  slice is either nil or a (possibly empty) sequence; the difference is visible in
  the JSON that \<open>encoding/json\<close> writes for it, so it is kept. \<open>Interval\<close> is
  a Go \<open>uint\<close>, taken at its 64-bit width.
\<close>

record ExtractRule =
  XPathExpr :: string
  Attribute :: string

record ParsingRule =
  Interval :: "64 word"
  URL :: string
  NewsNodesXPathExpr :: string
  LinkRule :: ExtractRule
  TitleRule :: ExtractRule

record NewsItem =
  Link :: string
  Title :: string

datatype 'a slice = nil_slice | Slice "'a list"

fun append_slice :: "'a slice \<Rightarrow> 'a \<Rightarrow> 'a slice" where
  "append_slice nil_slice x = Slice [x]"
| "append_slice (Slice xs) x = Slice (xs @ [x])"

fun range_slice :: "'a slice \<Rightarrow> 'a list" where
  "range_slice nil_slice = []"
| "range_slice (Slice xs) = xs"

text \<open>
  Errors are values. The constructors follow the places where main.go and the
  libraries it calls create an error; a constructor that wraps another error
  stands for the \<open>fmt.Errorf\<close> that formats it.
\<close>

datatype sql_error =
    UniqueConstraintFailed string
  | EngineFault string

datatype url_error =
    InvalidControlCharacter
  | MissingProtocolScheme
  | FirstSegmentColon
  | EscapeError string
  | InvalidHostError string
  | InvalidPort string
  | MissingBracket
  | InvalidUserinfo

datatype json_error =
    SyntaxError string
  | UnmarshalTypeError string string

datatype error =
    ReadFileError string
  | RulesError json_error
  | LoadURLError string
  | ParseError string url_error
  | ConvertError string string error
  | QueryError sql_error
  | InsertFailed string string sql_error
  | ParseFormError string
  | OpenError string
  | ListenError string

datatype log_entry =
    LogError error
  | LogEmptyResult ExtractRule
  | LogFatal error
  | LogRules "ParsingRule option list"

text \<open>A call that can panic: an unrecovered panic ends the process.\<close>

datatype 'a may_panic = Panic | Return 'a

section \<open>The URL library\<close>

text \<open>
  convertToAbsURL calls \<open>url.Parse\<close>, \<open>IsAbs\<close>, \<open>ResolveReference\<close> and
  \<open>String\<close> of Go's net/url. The package is not part of the repository; the
  definitions of this section transcribe these four functions and the helpers they
  call (as of Go 1.21), so that URL normalization can be evaluated on
  concrete links. \<open>parse\<close> is the package's internal parser
  with \<open>viaRequest = false\<close>, the only way \<open>Parse\<close> calls it.
\<close>

definition byte :: "char \<Rightarrow> nat" where
  "byte c = of_char c"

definition between :: "char \<Rightarrow> char \<Rightarrow> char \<Rightarrow> bool" where
  "between lo hi c = (byte lo \<le> byte c \<and> byte c \<le> byte hi)"

definition is_alpha :: "char \<Rightarrow> bool" where
  "is_alpha c = (between CHR ''a'' CHR ''z'' c \<or> between CHR ''A'' CHR ''Z'' c)"

definition is_digit :: "char \<Rightarrow> bool" where
  "is_digit c = between CHR ''0'' CHR ''9'' c"

definition ishex :: "char \<Rightarrow> bool" where
  "ishex c = (is_digit c \<or> between CHR ''a'' CHR ''f'' c \<or> between CHR ''A'' CHR ''F'' c)"

definition unhex :: "char \<Rightarrow> nat" where
  "unhex c =
     (if is_digit c then byte c - byte CHR ''0''
      else if between CHR ''a'' CHR ''f'' c then byte c - byte CHR ''a'' + 10
      else if between CHR ''A'' CHR ''F'' c then byte c - byte CHR ''A'' + 10
      else 0)"

datatype encoding =
    encodePath
  | encodePathSegment
  | encodeHost
  | encodeZone
  | encodeUserPassword
  | encodeQueryComponent
  | encodeFragment

definition shouldEscape :: "char \<Rightarrow> encoding \<Rightarrow> bool" where
  "shouldEscape c mode =
     (if is_alpha c \<or> is_digit c then False
      else if (mode = encodeHost \<or> mode = encodeZone) \<and> c \<in> set ''!$&'()*+,;=:[]<>\"'' then False
      else if c \<in> set ''-_.~'' then False
      else if c \<in> set ''$&+,/:;=?@'' then
        (case mode of
           encodePath \<Rightarrow> c = CHR ''?''
         | encodePathSegment \<Rightarrow> c \<in> set ''/;,?''
         | encodeUserPassword \<Rightarrow> c \<in> set ''@/?:''
         | encodeQueryComponent \<Rightarrow> True
         | encodeFragment \<Rightarrow> False
         | _ \<Rightarrow> True)
      else if mode = encodeFragment \<and> c \<in> set ''!()*'' then False
      else True)"

definition to_lower :: "char \<Rightarrow> char" where
  "to_lower c =
     (case map_of (zip ''ABCDEFGHIJKLMNOPQRSTUVWXYZ'' ''abcdefghijklmnopqrstuvwxyz'') c of
        None \<Rightarrow> c
      | Some l \<Rightarrow> l)"

fun cut :: "char \<Rightarrow> string \<Rightarrow> string \<times> string \<times> bool" where
  "cut sep [] = ([], [], False)"
| "cut sep (c # cs) =
     (if c = sep then ([], cs, True)
      else (case cut sep cs of (before, after, found) \<Rightarrow> (c # before, after, found)))"

fun index_of :: "char \<Rightarrow> string \<Rightarrow> nat option" where
  "index_of x [] = None"
| "index_of x (c # cs) = (if c = x then Some 0 else map_option Suc (index_of x cs))"

fun last_index :: "char \<Rightarrow> string \<Rightarrow> nat option" where
  "last_index x [] = None"
| "last_index x (c # cs) =
     (case last_index x cs of
        Some i \<Rightarrow> Some (Suc i)
      | None \<Rightarrow> if c = x then Some 0 else None)"

fun index_sub :: "string \<Rightarrow> string \<Rightarrow> nat option" where
  "index_sub sub [] = (if sub = [] then Some 0 else None)"
| "index_sub sub (c # cs) =
     (if prefix sub (c # cs) then Some 0 else map_option Suc (index_sub sub cs))"

fun split_on :: "char \<Rightarrow> string \<Rightarrow> string list" where
  "split_on sep [] = [[]]"
| "split_on sep (c # cs) =
     (if c = sep then [] # split_on sep cs
      else (case split_on sep cs of
              [] \<Rightarrow> [[c]]
            | seg # segs \<Rightarrow> (c # seg) # segs))"

definition stringContainsCTLByte :: "string \<Rightarrow> bool" where
  "stringContainsCTLByte s = (\<exists>c \<in> set s. byte c < 32 \<or> byte c = 127)"

fun unescape_check :: "string \<Rightarrow> encoding \<Rightarrow> url_error option" where
  "unescape_check [] mode = None"
| "unescape_check (c # cs) mode =
     (if c = CHR ''%'' then
        (case cs of
           a # b # rest \<Rightarrow>
             if \<not> ishex a \<or> \<not> ishex b then Some (EscapeError (take 3 (c # cs)))
             else if mode = encodeHost \<and> unhex a < 8 \<and> [c, a, b] \<noteq> ''%25''
               then Some (EscapeError [c, a, b])
             else if mode = encodeZone \<and> [c, a, b] \<noteq> ''%25''
                     \<and> char_of (unhex a * 16 + unhex b) \<noteq> CHR '' ''
                     \<and> shouldEscape (char_of (unhex a * 16 + unhex b)) encodeHost
               then Some (EscapeError [c, a, b])
             else unescape_check rest mode
         | _ \<Rightarrow> Some (EscapeError (take 3 (c # cs))))
      else if c = CHR ''+'' then unescape_check cs mode
      else if (mode = encodeHost \<or> mode = encodeZone) \<and> byte c < 128 \<and> shouldEscape c encodeHost
        then Some (InvalidHostError [c])
      else unescape_check cs mode)"

fun unescape_decode :: "string \<Rightarrow> encoding \<Rightarrow> string" where
  "unescape_decode [] mode = []"
| "unescape_decode (c # cs) mode =
     (if c = CHR ''%'' then
        (case cs of
           a # b # rest \<Rightarrow> char_of (unhex a * 16 + unhex b) # unescape_decode rest mode
         | _ \<Rightarrow> [c])
      else if c = CHR ''+'' then
        (if mode = encodeQueryComponent then CHR '' '' else CHR ''+'') # unescape_decode cs mode
      else c # unescape_decode cs mode)"

definition unescape :: "string \<Rightarrow> encoding \<Rightarrow> url_error + string" where
  "unescape s mode =
     (case unescape_check s mode of
        Some e \<Rightarrow> Inl e
      | None \<Rightarrow> Inr (unescape_decode s mode))"

definition upperhex :: "nat \<Rightarrow> char" where
  "upperhex n = ''0123456789ABCDEF'' ! n"

fun escape :: "string \<Rightarrow> encoding \<Rightarrow> string" where
  "escape [] mode = []"
| "escape (c # cs) mode =
     (if shouldEscape c mode then
        (if c = CHR '' '' \<and> mode = encodeQueryComponent then CHR ''+'' # escape cs mode
         else CHR ''%'' # upperhex (byte c div 16) # upperhex (byte c mod 16) # escape cs mode)
      else c # escape cs mode)"

fun getScheme_from :: "nat \<Rightarrow> string \<Rightarrow> string \<Rightarrow> url_error + (string \<times> string)" where
  "getScheme_from i [] rawURL = Inr ([], rawURL)"
| "getScheme_from i (c # cs) rawURL =
     (if is_alpha c then getScheme_from (Suc i) cs rawURL
      else if is_digit c \<or> c \<in> set ''+-.'' then
        (if i = 0 then Inr ([], rawURL) else getScheme_from (Suc i) cs rawURL)
      else if c = CHR '':'' then
        (if i = 0 then Inl MissingProtocolScheme
         else Inr (take i rawURL, drop (Suc i) rawURL))
      else Inr ([], rawURL))"

definition getScheme :: "string \<Rightarrow> url_error + (string \<times> string)" where
  "getScheme rawURL = getScheme_from 0 rawURL rawURL"

record Userinfo =
  username :: string
  password :: string
  passwordSet :: bool

record url =
  Scheme :: string
  Opaque :: string
  User :: "Userinfo option"
  Host :: string
  Path :: string
  RawPath :: string
  OmitHost :: bool
  ForceQuery :: bool
  RawQuery :: string
  Fragment :: string
  RawFragment :: string

definition empty_url :: url where
  "empty_url =
     \<lparr>Scheme = [], Opaque = [], User = None, Host = [], Path = [], RawPath = [],
      OmitHost = False, ForceQuery = False, RawQuery = [], Fragment = [], RawFragment = []\<rparr>"

definition validOptionalPort :: "string \<Rightarrow> bool" where
  "validOptionalPort port =
     (case port of
        [] \<Rightarrow> True
      | c # cs \<Rightarrow> c = CHR '':'' \<and> (\<forall>b \<in> set cs. is_digit b))"

definition validUserinfo :: "string \<Rightarrow> bool" where
  "validUserinfo s = (\<forall>r \<in> set s. is_alpha r \<or> is_digit r \<or> r \<in> set ''-._:~!$&'()*+,;=%@'')"

definition parseHost :: "string \<Rightarrow> url_error + string" where
  "parseHost host =
     (if prefix ''['' host then
        (case last_index CHR '']'' host of
           None \<Rightarrow> Inl MissingBracket
         | Some i \<Rightarrow>
             (let colonPort = drop (Suc i) host in
              if \<not> validOptionalPort colonPort then Inl (InvalidPort colonPort)
              else (case index_sub ''%25'' (take i host) of
                      Some zone \<Rightarrow>
                        (case unescape (take zone host) encodeHost of
                           Inl e \<Rightarrow> Inl e
                         | Inr host1 \<Rightarrow>
                             (case unescape (drop zone (take i host)) encodeZone of
                                Inl e \<Rightarrow> Inl e
                              | Inr host2 \<Rightarrow>
                                  (case unescape (drop i host) encodeHost of
                                     Inl e \<Rightarrow> Inl e
                                   | Inr host3 \<Rightarrow> Inr (host1 @ host2 @ host3))))
                    | None \<Rightarrow> unescape host encodeHost)))
      else
        (case last_index CHR '':'' host of
           Some i \<Rightarrow>
             (let colonPort = drop i host in
              if \<not> validOptionalPort colonPort then Inl (InvalidPort colonPort)
              else unescape host encodeHost)
         | None \<Rightarrow> unescape host encodeHost))"

definition parseAuthority :: "string \<Rightarrow> url_error + (Userinfo option \<times> string)" where
  "parseAuthority authority =
     (case last_index CHR ''@'' authority of
        None \<Rightarrow>
          (case parseHost authority of
             Inl e \<Rightarrow> Inl e
           | Inr host \<Rightarrow> Inr (None, host))
      | Some i \<Rightarrow>
          (case parseHost (drop (Suc i) authority) of
             Inl e \<Rightarrow> Inl e
           | Inr host \<Rightarrow>
               (let userinfo = take i authority in
                if \<not> validUserinfo userinfo then Inl InvalidUserinfo
                else if CHR '':'' \<notin> set userinfo then
                  (case unescape userinfo encodeUserPassword of
                     Inl e \<Rightarrow> Inl e
                   | Inr u \<Rightarrow>
                       Inr (Some \<lparr>username = u, password = [], passwordSet = False\<rparr>, host))
                else
                  (case cut CHR '':'' userinfo of
                     (username0, password0, _) \<Rightarrow>
                       (case unescape username0 encodeUserPassword of
                          Inl e \<Rightarrow> Inl e
                        | Inr u \<Rightarrow>
                            (case unescape password0 encodeUserPassword of
                               Inl e \<Rightarrow> Inl e
                             | Inr p \<Rightarrow>
                                 Inr (Some \<lparr>username = u, password = p, passwordSet = True\<rparr>,
                                      host)))))))"

definition setPath :: "url \<Rightarrow> string \<Rightarrow> url_error + url" where
  "setPath u p =
     (case unescape p encodePath of
        Inl e \<Rightarrow> Inl e
      | Inr path \<Rightarrow>
          Inr (u\<lparr>Path := path, RawPath := (if p = escape path encodePath then [] else p)\<rparr>))"

definition setFragment :: "url \<Rightarrow> string \<Rightarrow> url_error + url" where
  "setFragment u f =
     (case unescape f encodeFragment of
        Inl e \<Rightarrow> Inl e
      | Inr frag \<Rightarrow>
          Inr (u\<lparr>Fragment := frag,
                RawFragment := (if f = escape frag encodeFragment then [] else f)\<rparr>))"

definition validEncoded :: "string \<Rightarrow> encoding \<Rightarrow> bool" where
  "validEncoded s mode =
     (\<forall>c \<in> set s. c \<in> set ''!$&'()*+,;=:@[]%'' \<or> \<not> shouldEscape c mode)"

definition EscapedPath :: "url \<Rightarrow> string" where
  "EscapedPath u =
     (if RawPath u \<noteq> [] \<and> validEncoded (RawPath u) encodePath
         \<and> unescape (RawPath u) encodePath = Inr (Path u)
      then RawPath u
      else if Path u = ''*'' then ''*''
      else escape (Path u) encodePath)"

definition EscapedFragment :: "url \<Rightarrow> string" where
  "EscapedFragment u =
     (if RawFragment u \<noteq> [] \<and> validEncoded (RawFragment u) encodeFragment
         \<and> unescape (RawFragment u) encodeFragment = Inr (Fragment u)
      then RawFragment u
      else escape (Fragment u) encodeFragment)"

definition parse :: "string \<Rightarrow> url_error + url" where
  "parse rawURL =
     (if stringContainsCTLByte rawURL then Inl InvalidControlCharacter
      else if rawURL = ''*'' then Inr (empty_url\<lparr>Path := ''*''\<rparr>)
      else
        (case getScheme rawURL of
           Inl e \<Rightarrow> Inl e
         | Inr (scheme, rest0) \<Rightarrow>
             (let u1 = empty_url\<lparr>Scheme := map to_lower scheme\<rparr>;
                  (u2, rest) =
                    (if suffix ''?'' rest0 \<and> count_list rest0 CHR ''?'' = 1
                     then (u1\<lparr>ForceQuery := True\<rparr>, butlast rest0)
                     else (case cut CHR ''?'' rest0 of
                             (before, after, _) \<Rightarrow> (u1\<lparr>RawQuery := after\<rparr>, before)))
              in if \<not> prefix ''/'' rest \<and> Scheme u2 \<noteq> [] then Inr (u2\<lparr>Opaque := rest\<rparr>)
                 else if \<not> prefix ''/'' rest \<and> CHR '':'' \<in> set (fst (cut CHR ''/'' rest))
                   then Inl FirstSegmentColon
                 else if (Scheme u2 \<noteq> [] \<or> \<not> prefix ''///'' rest) \<and> prefix ''//'' rest then
                   (let authority0 = drop 2 rest;
                        (authority, rest') =
                          (case index_of CHR ''/'' authority0 of
                             None \<Rightarrow> (authority0, [])
                           | Some i \<Rightarrow> (take i authority0, drop i authority0))
                    in case parseAuthority authority of
                         Inl e \<Rightarrow> Inl e
                       | Inr (user, host) \<Rightarrow> setPath (u2\<lparr>User := user, Host := host\<rparr>) rest')
                 else if Scheme u2 \<noteq> [] \<and> prefix ''/'' rest
                   then setPath (u2\<lparr>OmitHost := True\<rparr>) rest
                 else setPath u2 rest)))"

definition Parse :: "string \<Rightarrow> error + url" where
  "Parse rawURL =
     (case cut CHR ''#'' rawURL of
        (u, frag, _) \<Rightarrow>
          (case parse u of
             Inl e \<Rightarrow> Inl (ParseError u e)
           | Inr url \<Rightarrow>
               if frag = [] then Inr url
               else (case setFragment url frag of
                       Inl e \<Rightarrow> Inl (ParseError rawURL e)
                     | Inr url' \<Rightarrow> Inr url')))"

definition IsAbs :: "url \<Rightarrow> bool" where
  "IsAbs u = (Scheme u \<noteq> [])"

definition Userinfo_String :: "Userinfo \<Rightarrow> string" where
  "Userinfo_String u =
     escape (username u) encodeUserPassword
     @ (if passwordSet u then '':'' @ escape (password u) encodeUserPassword else [])"

definition url_String :: "url \<Rightarrow> string" where
  "url_String u =
     (let buf1 = (if Scheme u \<noteq> [] then Scheme u @ '':'' else []);
          buf2 =
            (if Opaque u \<noteq> [] then buf1 @ Opaque u
             else
               (let buf3 =
                      (if Scheme u \<noteq> [] \<or> Host u \<noteq> [] \<or> User u \<noteq> None then
                         (if OmitHost u \<and> Host u = [] \<and> User u = None then buf1
                          else buf1
                               @ (if Host u \<noteq> [] \<or> Path u \<noteq> [] \<or> User u \<noteq> None then ''//'' else [])
                               @ (case User u of None \<Rightarrow> [] | Some ui \<Rightarrow> Userinfo_String ui @ ''@'')
                               @ (if Host u \<noteq> [] then escape (Host u) encodeHost else []))
                       else buf1);
                    path = EscapedPath u;
                    buf4 = (if path \<noteq> [] \<and> hd path \<noteq> CHR ''/'' \<and> Host u \<noteq> [] then buf3 @ ''/'' else buf3);
                    buf5 = (if buf4 = [] \<and> CHR '':'' \<in> set (fst (cut CHR ''/'' path))
                            then buf4 @ ''./'' else buf4)
                in buf5 @ path));
          buf6 = (if ForceQuery u \<or> RawQuery u \<noteq> [] then buf2 @ ''?'' @ RawQuery u else buf2)
      in if Fragment u \<noteq> [] then buf6 @ ''#'' @ EscapedFragment u else buf6)"

fun resolve_elems :: "string list \<Rightarrow> string \<Rightarrow> bool \<Rightarrow> string" where
  "resolve_elems [] dst first = dst"
| "resolve_elems (elem # remaining) dst first =
     (if elem = ''.'' then resolve_elems remaining dst False
      else if elem = ''..'' then
        (let str = drop 1 dst in
         case last_index CHR ''/'' str of
           None \<Rightarrow> resolve_elems remaining ''/'' True
         | Some index \<Rightarrow> resolve_elems remaining (''/'' @ take index str) first)
      else resolve_elems remaining (dst @ (if first then [] else ''/'') @ elem) False)"

definition resolvePath :: "string \<Rightarrow> string \<Rightarrow> string" where
  "resolvePath base ref =
     (let full =
            (if ref = [] then base
             else if hd ref \<noteq> CHR ''/'' then
               (case last_index CHR ''/'' base of
                  None \<Rightarrow> ref
                | Some i \<Rightarrow> take (Suc i) base @ ref)
             else ref)
      in if full = [] then []
         else
           (let elems = split_on CHR ''/'' full;
                dst = resolve_elems elems ''/'' True;
                r = (if last elems = ''.'' \<or> last elems = ''..'' then dst @ ''/'' else dst)
            in if 1 < length r \<and> r ! 1 = CHR ''/'' then drop 1 r else r))"

definition setPath_ignoring :: "url \<Rightarrow> string \<Rightarrow> url" where
  "setPath_ignoring u p = (case setPath u p of Inl e \<Rightarrow> u | Inr u' \<Rightarrow> u')"

definition ResolveReference :: "url \<Rightarrow> url \<Rightarrow> url" where
  "ResolveReference u ref =
     (let url1 = (if Scheme ref = [] then ref\<lparr>Scheme := Scheme u\<rparr> else ref) in
      if Scheme ref \<noteq> [] \<or> Host ref \<noteq> [] \<or> User ref \<noteq> None then
        setPath_ignoring url1 (resolvePath (EscapedPath ref) [])
      else if Opaque ref \<noteq> [] then url1\<lparr>User := None, Host := [], Path := []\<rparr>
      else
        (let url2 =
               (if Path ref = [] \<and> \<not> ForceQuery ref \<and> RawQuery ref = [] then
                  (if Fragment ref = []
                   then url1\<lparr>RawQuery := RawQuery u, Fragment := Fragment u,
                             RawFragment := RawFragment u\<rparr>
                   else url1\<lparr>RawQuery := RawQuery u\<rparr>)
                else url1)
         in if Path ref = [] \<and> Opaque u \<noteq> [] then
              url2\<lparr>Opaque := Opaque u, User := None, Host := [], Path := []\<rparr>
            else
              setPath_ignoring (url2\<lparr>Host := Host u, User := User u\<rparr>)
                (resolvePath (EscapedPath u) (EscapedPath ref))))"

definition convertToAbsURL :: "string \<Rightarrow> string \<Rightarrow> error + string" where
  "convertToAbsURL baseURL linkURL =
     (case Parse linkURL of
        Inl e \<Rightarrow> Inl e
      | Inr url \<Rightarrow>
          (case Parse baseURL of
             Inl e \<Rightarrow> Inl e
           | Inr base \<Rightarrow>
               if \<not> IsAbs url then Inr (url_String (ResolveReference base url))
               else Inr linkURL))"

section \<open>The extraction pipeline\<close>

text \<open>
  The HTML library (htmlquery) is not part of the repository and is taken as a
  parameter: any type \<open>'n\<close> of nodes with the four functions main.go calls.
  \<open>Find\<close> and \<open>FindOne\<close> panic when the XPath expression does not compile,
  which is the result \<open>None\<close>; \<open>FindOne\<close> returns nil (\<open>Some None\<close>) when
  no node matches. The outcome of \<open>htmlquery.LoadURL\<close> for one cycle is an
  input: the error text, or the root of the parsed document.
\<close>

record 'n htmlquery =
  Find :: "'n \<Rightarrow> string \<Rightarrow> 'n list option"
  FindOne :: "'n \<Rightarrow> string \<Rightarrow> 'n option option"
  SelectAttr :: "'n \<Rightarrow> string \<Rightarrow> string"
  InnerText :: "'n \<Rightarrow> string"

text \<open>extractEntity returns the extracted string and what it logged.\<close>

definition extractEntity ::
  "'n htmlquery \<Rightarrow> 'n \<Rightarrow> ExtractRule \<Rightarrow> (string \<times> log_entry list) may_panic" where
  "extractEntity hq parentNode rule =
     (case FindOne hq parentNode (XPathExpr rule) of
        None \<Rightarrow> Panic
      | Some node \<Rightarrow>
          (let result =
                 (case node of
                    None \<Rightarrow> []
                  | Some n \<Rightarrow>
                      if Attribute rule \<noteq> [] then SelectAttr hq n (Attribute rule)
                      else InnerText hq n)
           in Return (result, if result = [] then [LogEmptyResult rule] else [])))"

text \<open>
  The loop of loadNewsList over the item nodes, with the slice built so far and the
  log so far. When convertToAbsURL fails the function returns nil and the wrapped
  error; the variable \<open>link\<close> was overwritten by the failed call, so the message
  is formatted with the empty string.
\<close>

fun loadNodes ::
  "'n htmlquery \<Rightarrow> ParsingRule \<Rightarrow> 'n list \<Rightarrow> NewsItem slice \<Rightarrow> log_entry list
     \<Rightarrow> ((NewsItem slice \<times> error option) \<times> log_entry list) may_panic" where
  "loadNodes hq rule [] items lg = Return ((items, None), lg)"
| "loadNodes hq rule (node # nodes) items lg =
     (case extractEntity hq node (LinkRule rule) of
        Panic \<Rightarrow> Panic
      | Return (link, lg1) \<Rightarrow>
          (case extractEntity hq node (TitleRule rule) of
             Panic \<Rightarrow> Panic
           | Return (title, lg2) \<Rightarrow>
               (case convertToAbsURL (URL rule) link of
                  Inl e \<Rightarrow>
                    Return ((nil_slice, Some (ConvertError [] (URL rule) e)), lg @ lg1 @ lg2)
                | Inr link' \<Rightarrow>
                    loadNodes hq rule nodes
                      (append_slice items \<lparr>Link = link', Title = title\<rparr>) (lg @ lg1 @ lg2))))"

definition loadNewsList ::
  "'n htmlquery \<Rightarrow> ParsingRule \<Rightarrow> string + 'n
     \<Rightarrow> ((NewsItem slice \<times> error option) \<times> log_entry list) may_panic" where
  "loadNewsList hq rule page =
     (case page of
        Inl m \<Rightarrow> Return ((nil_slice, Some (LoadURLError m)), [])
      | Inr doc \<Rightarrow>
          (case Find hq doc (NewsNodesXPathExpr rule) of
             None \<Rightarrow> Panic
           | Some nodes \<Rightarrow> loadNodes hq rule nodes nil_slice []))"

section \<open>The store: table news of news.db\<close>

text \<open>
  openDatabase creates

    CREATE TABLE IF NOT EXISTS 'news' (
      'id' INTEGER PRIMARY KEY AUTOINCREMENT,
      'link' VARCHAR(1024) UNIQUE NOT NULL,
      'title' VARCHAR(1024) NOT NULL,
      'timestamp' DATETIME DEFAULT CURRENT_TIMESTAMP)

  A database state is the table in rowid order together with the AUTOINCREMENT
  counter. The timestamp is the engine's clock reading (whole seconds) at the
  INSERT. SQLite does not enforce the declared lengths, and a Go string is never
  NULL, so UNIQUE on link is the only constraint an INSERT of this program can
  violate. Every statement can also fail in the engine itself (I/O error, database
  locked); \<open>sql_env\<close> is what the world supplies to one statement.
\<close>

record news_row =
  row_id :: nat
  row_link :: string
  row_title :: string
  row_timestamp :: nat

record database =
  news :: "news_row list"
  seq :: nat

record sql_env =
  fault :: "string option"
  now :: nat

definition links :: "database \<Rightarrow> string list" where
  "links db = map row_link (news db)"

text \<open>INSERT INTO news(link, title) values(?, ?)\<close>

definition sql_insert :: "sql_env \<Rightarrow> database \<Rightarrow> string \<Rightarrow> string \<Rightarrow> sql_error + database" where
  "sql_insert env db l t =
     (case fault env of
        Some m \<Rightarrow> Inl (EngineFault m)
      | None \<Rightarrow>
          if l \<in> set (links db) then Inl (UniqueConstraintFailed ''news.link'')
          else Inr (db\<lparr>news := news db @
                      [\<lparr>row_id = Suc (seq db), row_link = l, row_title = t,
                        row_timestamp = now env\<rparr>],
                    seq := Suc (seq db)\<rparr>))"

text \<open>
  insertNewsItem: the error of Exec is wrapped and returned; the database is
  changed only when the INSERT succeeded.
\<close>

definition insertNewsItem :: "sql_env \<Rightarrow> database \<Rightarrow> NewsItem \<Rightarrow> database \<times> error option" where
  "insertNewsItem env db item =
     (case sql_insert env db (Link item) (Title item) of
        Inl e \<Rightarrow> (db, Some (InsertFailed (Link item) (Title item) e))
      | Inr db' \<Rightarrow> (db', None))"

text \<open>
  SQLite's instr(X, Y): one plus the number of characters before the first
  occurrence of Y in X, or 0 when Y occurs nowhere in X. Positions are counted in
  bytes here; getNews only tests the result against 0.
\<close>

fun instr :: "string \<Rightarrow> string \<Rightarrow> nat" where
  "instr [] y = (if y = [] then 1 else 0)"
| "instr (c # cs) y =
     (if prefix y (c # cs) then 1
      else (case instr cs y of 0 \<Rightarrow> 0 | Suc n \<Rightarrow> Suc (Suc n)))"

text \<open>
  ORDER BY timestamp DESC. SQL leaves the order among rows of equal timestamp
  open; the model keeps such rows in rowid order, and no theorem below depends on
  that choice.
\<close>

fun insert_desc :: "news_row \<Rightarrow> news_row list \<Rightarrow> news_row list" where
  "insert_desc r [] = [r]"
| "insert_desc r (x # xs) =
     (if row_timestamp x \<le> row_timestamp r then r # x # xs else x # insert_desc r xs)"

definition order_by_timestamp_desc :: "news_row list \<Rightarrow> news_row list" where
  "order_by_timestamp_desc rs = foldr insert_desc rs []"

text \<open>
  The two SELECT statements of getNews. getNews passes the term as an argument to
  both; the statement without a placeholder does not read it (the SQLite driver
  binds only as many arguments as the statement has placeholders).
\<close>

datatype statement = SelectAll | SelectMatching

fun select_rows :: "statement \<Rightarrow> string \<Rightarrow> database \<Rightarrow> news_row list" where
  "select_rows SelectAll arg db = order_by_timestamp_desc (news db)"
| "select_rows SelectMatching arg db =
     order_by_timestamp_desc (filter (\<lambda>r. instr (row_title r) arg \<noteq> 0) (news db))"

text \<open>
  db.Query: either the statement fails at once, or it yields a cursor: the rows that
  rows.Next delivers and the error rows.Err reports when the iteration stops.
  \<open>iter_fault = Some (n, m)\<close> is an engine failure after n rows were delivered.
\<close>

record query_env =
  query_fault :: "string option"
  iter_fault :: "(nat \<times> string) option"

definition sql_Query ::
  "query_env \<Rightarrow> database \<Rightarrow> statement \<Rightarrow> string \<Rightarrow> sql_error + (news_row list \<times> sql_error option)" where
  "sql_Query env db st arg =
     (case query_fault env of
        Some m \<Rightarrow> Inl (EngineFault m)
      | None \<Rightarrow>
          (case iter_fault env of
             None \<Rightarrow> Inr (select_rows st arg db, None)
           | Some (n, m) \<Rightarrow> Inr (take n (select_rows st arg db), Some (EngineFault m))))"

text \<open>
  The loop \<open>for rows.Next() { rows.Scan(&item.Link, &item.Title); items = append(items, item) }\<close>.
  Both selected columns are TEXT NOT NULL and are scanned into Go strings, so Scan
  itself has no failing input here.
\<close>

fun scan_rows :: "news_row list \<Rightarrow> NewsItem slice \<Rightarrow> NewsItem slice" where
  "scan_rows [] items = items"
| "scan_rows (r # rs) items =
     scan_rows rs (append_slice items \<lparr>Link = row_link r, Title = row_title r\<rparr>)"

definition getNews :: "query_env \<Rightarrow> database \<Rightarrow> string \<Rightarrow> NewsItem slice \<times> error option" where
  "getNews env db query =
     (let items = Slice [];
          st = (if query \<noteq> [] then SelectMatching else SelectAll)
      in case sql_Query env db st query of
           Inl e \<Rightarrow> (nil_slice, Some (QueryError e))
         | Inr (rows, err) \<Rightarrow>
             (let items' = scan_rows rows items
              in case err of
                   Some e \<Rightarrow> (nil_slice, Some (QueryError e))
                 | None \<Rightarrow> (items', None)))"

section \<open>The scheduler\<close>

text \<open>
  The part of the process that the updaters change: the database, the log, and
  whether the process still runs. \<open>log.Fatal\<close> prints and calls \<open>os.Exit(1)\<close>;
  an unrecovered panic in a goroutine ends the process too.
\<close>

datatype proc_state = Running | Exited nat | Panicked

record app =
  app_db :: database
  app_log :: "log_entry list"
  app_state :: proc_state

text \<open>
  What the world supplies to one cycle: the outcome of the fetch, and the engine's
  condition and clock for the k-th INSERT of the cycle.
\<close>

record 'n cycle_env =
  page :: "string + 'n"
  stmt_env :: "nat \<Rightarrow> sql_env"

text \<open>The loop of updateNews over the items: a failed insert is logged, the loop goes on.\<close>

fun insertItems ::
  "(nat \<Rightarrow> sql_env) \<Rightarrow> nat \<Rightarrow> NewsItem list \<Rightarrow> database \<Rightarrow> log_entry list
     \<Rightarrow> database \<times> log_entry list" where
  "insertItems envs k [] d lg = (d, lg)"
| "insertItems envs k (item # items) d lg =
     (case insertNewsItem (envs k) d item of
        (d', None) \<Rightarrow> insertItems envs (Suc k) items d' lg
      | (d', Some e) \<Rightarrow> insertItems envs (Suc k) items d' (lg @ [LogError e]))"

definition updateNews :: "'n htmlquery \<Rightarrow> ParsingRule \<Rightarrow> 'n cycle_env \<Rightarrow> app \<Rightarrow> app" where
  "updateNews hq rule w a =
     (case loadNewsList hq rule (page w) of
        Panic \<Rightarrow> a\<lparr>app_state := Panicked\<rparr>
      | Return ((items, Some err), lg) \<Rightarrow>
          a\<lparr>app_log := app_log a @ lg @ [LogFatal err], app_state := Exited 1\<rparr>
      | Return ((items, None), lg) \<Rightarrow>
          (case insertItems (stmt_env w) 0 (range_slice items) (app_db a) (app_log a @ lg) of
             (d', lg') \<Rightarrow> a\<lparr>app_db := d', app_log := lg'\<rparr>))"

text \<open>
  \<open>time.Duration(rule.Interval) * time.Minute\<close>: the conversion to int64 and the
  multiplication both wrap. \<open>time.NewTicker\<close> panics on a duration that is not
  positive.
\<close>

definition ticker_duration :: "64 word \<Rightarrow> int" where
  "ticker_duration interval = sint (interval * 60000000000)"

text \<open>
  The loop \<open>for { select { case <-ticker.C: app.updateNews(rule) } }\<close> never
  returns. \<open>run_ticks\<close> is the state after the firings of a finite prefix of the
  ticks, each with what the world supplies to it; once the process has ended, no
  firing runs.
\<close>

fun run_ticks :: "'n htmlquery \<Rightarrow> ParsingRule \<Rightarrow> 'n cycle_env list \<Rightarrow> app \<Rightarrow> app" where
  "run_ticks hq rule [] a = a"
| "run_ticks hq rule (w # ws) a =
     (if app_state a \<noteq> Running then a else run_ticks hq rule ws (updateNews hq rule w a))"

definition updateNewsPeriodically ::
  "'n htmlquery \<Rightarrow> ParsingRule \<Rightarrow> 'n cycle_env \<Rightarrow> 'n cycle_env list \<Rightarrow> app \<Rightarrow> app" where
  "updateNewsPeriodically hq rule first ticks a =
     (let a1 = updateNews hq rule first a in
      if app_state a1 \<noteq> Running then a1
      else if ticker_duration (Interval rule) \<le> 0 then a1\<lparr>app_state := Panicked\<rparr>
      else run_ticks hq rule ticks a1)"

section \<open>The query service\<close>

text \<open>
  JSON values. \<open>json.MarshalIndent\<close> is modelled up to the value it writes, not
  its text: a nil slice is written as null, any other slice as an array, a
  NewsItem as the object of its two tagged fields.
\<close>

datatype json =
    JNull
  | JBool bool
  | JNumber string
  | JString string
  | JArray "json list"
  | JObject "(string \<times> json) list"

definition marshal_item :: "NewsItem \<Rightarrow> json" where
  "marshal_item i = JObject [(''link'', JString (Link i)), (''title'', JString (Title i))]"

fun marshal_items :: "NewsItem slice \<Rightarrow> json" where
  "marshal_items nil_slice = JNull"
| "marshal_items (Slice xs) = JArray (map marshal_item xs)"

text \<open>
  A request, as far as searchHandler reads it: the outcome of r.ParseForm and the
  parsed form. \<open>Values.Get\<close> is the first value of the key, or the empty string
  when the key is absent.
\<close>

record request =
  parse_error :: "string option"
  Form :: "string \<Rightarrow> string list option"

definition values_Get :: "(string \<Rightarrow> string list option) \<Rightarrow> string \<Rightarrow> string" where
  "values_Get v key = (case v key of None \<Rightarrow> [] | Some [] \<Rightarrow> [] | Some (x # _) \<Rightarrow> x)"

datatype body = ErrorText error | JsonText json

record response =
  status :: nat
  content_type :: string
  body :: body

definition http_Error :: "error \<Rightarrow> nat \<Rightarrow> response" where
  "http_Error e code = \<lparr>status = code, content_type = ''text/plain; charset=utf-8'', body = ErrorText e\<rparr>"

text \<open>
  searchHandler returns the response and what it logged. Marshalling a slice of
  NewsItem (two string fields) has no failing input, so the third error exit of the
  source is not a branch here.
\<close>

definition searchHandler :: "query_env \<Rightarrow> database \<Rightarrow> request \<Rightarrow> response \<times> log_entry list" where
  "searchHandler env db r =
     (case parse_error r of
        Some m \<Rightarrow> (http_Error (ParseFormError m) 500, [LogError (ParseFormError m)])
      | None \<Rightarrow>
          (let query = values_Get (Form r) ''q'' in
           case getNews env db query of
             (_, Some e) \<Rightarrow> (http_Error e 500, [])
           | (items, None) \<Rightarrow>
               (\<lparr>status = 200, content_type = ''application/json'',
                 body = JsonText (marshal_items items)\<rparr>, [])))"

section \<open>The rule catalog and process start\<close>



















text \<open>
  One updater goroutine. A nil rule is dereferenced at once, which panics.
\<close>

definition run_updater ::
  "'n htmlquery \<Rightarrow> ParsingRule option \<Rightarrow> 'n cycle_env \<Rightarrow> 'n cycle_env list \<Rightarrow> app \<Rightarrow> app" where
  "run_updater hq rule first ticks a =
     (case rule of
        None \<Rightarrow> a\<lparr>app_state := Panicked\<rparr>
      | Some r \<Rightarrow> updateNewsPeriodically hq r first ticks a)"

section \<open>Example inputs\<close>

definition example_db :: database where
  "example_db =
     \<lparr>news =
        [\<lparr>row_id = 1, row_link = ''http://example.com/a'', row_title = ''Alpha news'',
          row_timestamp = 10\<rparr>,
         \<lparr>row_id = 2, row_link = ''http://example.com/b'', row_title = ''Beta'',
          row_timestamp = 20\<rparr>],
      seq = 2\<rparr>"

definition empty_db :: database where
  "empty_db = \<lparr>news = [], seq = 0\<rparr>"

definition no_fault :: query_env where
  "no_fault = \<lparr>query_fault = None, iter_fault = None\<rparr>"

definition at_time :: "nat \<Rightarrow> sql_env" where
  "at_time t = \<lparr>fault = None, now = t\<rparr>"

definition request_without_q :: request where
  "request_without_q = \<lparr>parse_error = None, Form = (\<lambda>k. None)\<rparr>"

definition request_q :: "string \<Rightarrow> request" where
  "request_q v = \<lparr>parse_error = None, Form = (\<lambda>k. if k = ''q'' then Some [v] else None)\<rparr>"

definition example_item :: NewsItem where
  "example_item = \<lparr>Link = ''http://example.com/a'', Title = ''Alpha news''\<rparr>"

text \<open>
  An HTML tree for the examples, with htmlquery's \<open>SelectAttr\<close> and
  \<open>InnerText\<close> on it. \<open>example_hq\<close> stands in for the XPath engine on the
  example pages: it answers the expressions \<open>//tag\<close> (all elements of that name
  under the node) and \<open>.//tag\<close> (the first such element), and treats every
  other expression as one that does not compile.
\<close>

datatype node = Element string "(string \<times> string) list" "node list" | TextNode string

fun inner_text :: "node \<Rightarrow> string" where
  "inner_text (TextNode s) = s"
| "inner_text (Element tag attrs children) = concat (map inner_text children)"

fun select_attr :: "node \<Rightarrow> string \<Rightarrow> string" where
  "select_attr (TextNode s) name = []"
| "select_attr (Element tag attrs children) name =
     (case map_of attrs name of None \<Rightarrow> [] | Some v \<Rightarrow> v)"

fun elements_named :: "string \<Rightarrow> node \<Rightarrow> node list" where
  "elements_named name (TextNode s) = []"
| "elements_named name (Element tag attrs children) =
     concat (map (\<lambda>c. (case c of
                          Element t _ _ \<Rightarrow> if t = name then [c] else []
                        | TextNode _ \<Rightarrow> []) @ elements_named name c) children)"

definition example_hq :: "node htmlquery" where
  "example_hq =
     \<lparr>Find = (\<lambda>n expr. if prefix ''//'' expr then Some (elements_named (drop 2 expr) n) else None),
      FindOne = (\<lambda>n expr. if prefix ''.//'' expr
                   then Some (case elements_named (drop 3 expr) n of [] \<Rightarrow> None | x # _ \<Rightarrow> Some x)
                   else None),
      SelectAttr = select_attr,
      InnerText = inner_text\<rparr>"

definition example_rule :: ParsingRule where
  "example_rule =
     \<lparr>Interval = 5, URL = ''http://example.com/news/index.html'',
      NewsNodesXPathExpr = ''//div'',
      LinkRule = \<lparr>XPathExpr = ''.//a'', Attribute = ''href''\<rparr>,
      TitleRule = \<lparr>XPathExpr = ''.//a'', Attribute = []\<rparr>\<rparr>"

definition item_node :: "string \<Rightarrow> string \<Rightarrow> node" where
  "item_node href title =
     Element ''div'' [(''class'', ''item'')] [Element ''a'' [(''href'', href)] [TextNode title]]"

definition page_of :: "node list \<Rightarrow> node" where
  "page_of items = Element ''html'' [] [Element ''body'' [] items]"

definition good_page :: node where
  "good_page = page_of [item_node ''article/1'' ''First'', item_node ''http://other.com/x'' ''Second'']"

definition bad_link_page :: node where
  "bad_link_page = page_of [item_node ''article/1'' ''First'', item_node '':bad'' ''Second'']"


definition example_app :: app where
  "example_app = \<lparr>app_db = empty_db, app_log = [], app_state = Running\<rparr>"

definition cycle_with :: "string + node \<Rightarrow> node cycle_env" where
  "cycle_with p = \<lparr>page = p, stmt_env = (\<lambda>k. at_time (100 + k))\<rparr>"


definition item_of_row :: "news_row \<Rightarrow> NewsItem" where
  "item_of_row r = \<lparr>Link = row_link r, Title = row_title r\<rparr>"

definition newest_first :: "news_row list \<Rightarrow> bool" where
  "newest_first rs = sorted_wrt (\<lambda>a b. row_timestamp b \<le> row_timestamp a) rs"

section \<open>Properties of the store\<close>

lemma instr_sublist: "instr x y \<noteq> 0 \<longleftrightarrow> sublist y x"
  by (induction x) (auto simp: sublist_Cons_right split: nat.splits)

lemma mset_insert_desc: "mset (insert_desc r rs) = add_mset r (mset rs)"
  by (induction rs) auto

lemma set_insert_desc: "set (insert_desc r rs) = insert r (set rs)"
  by (induction rs) auto

lemma newest_first_insert_desc:
  "newest_first rs \<Longrightarrow> newest_first (insert_desc r rs)"
  unfolding newest_first_def
  by (induction rs) (auto simp: set_insert_desc)

lemma mset_order_by: "mset (order_by_timestamp_desc rs) = mset rs"
  unfolding order_by_timestamp_desc_def
  by (induction rs) (auto simp: mset_insert_desc)

lemma newest_first_order_by: "newest_first (order_by_timestamp_desc rs)"
  unfolding order_by_timestamp_desc_def
proof (induction rs)
  case Nil
  show ?case by (simp add: newest_first_def)
next
  case (Cons r rs)
  then show ?case by (simp add: newest_first_insert_desc)
qed

lemma scan_rows_Slice:
  "scan_rows rs (Slice acc) = Slice (acc @ map item_of_row rs)"
  by (induction rs arbitrary: acc) (auto simp: item_of_row_def)


lemma getNews_ok:
  assumes "query_fault env = None" and "iter_fault env = None"
  shows "getNews env db q =
           (Slice (map item_of_row
              (select_rows (if q \<noteq> [] then SelectMatching else SelectAll) q db)), None)"
  using assms by (simp add: getNews_def sql_Query_def scan_rows_Slice)

lemma getNews_fst_cases:
  "fst (getNews env db q) = nil_slice \<and> snd (getNews env db q) \<noteq> None
   \<or> (\<exists>xs. fst (getNews env db q) = Slice xs) \<and> snd (getNews env db q) = None"
  by (auto simp: getNews_def sql_Query_def scan_rows_Slice Let_def split: option.splits sum.splits prod.splits)

text \<open>
  C3. With an empty term getNews returns every stored row, projected to
  (link, title), in an order that is non-increasing in the timestamp; a request
  without q and a request with an empty q are answered alike, with exactly this
  list as a JSON array.
\<close>

theorem getNews_empty_term_full_corpus:
  assumes "query_fault env = None" and "iter_fault env = None"
    and "parse_error r1 = None" and "Form r1 ''q'' = None"
    and "parse_error r2 = None" and "Form r2 ''q'' = Some ([] # vs)"
  shows "\<exists>rs. mset rs = mset (news db) \<and> newest_first rs
            \<and> getNews env db [] = (Slice (map item_of_row rs), None)
            \<and> searchHandler env db r1 =
                (\<lparr>status = 200, content_type = ''application/json'',
                  body = JsonText (JArray (map marshal_item (map item_of_row rs)))\<rparr>, [])
            \<and> searchHandler env db r2 = searchHandler env db r1"
proof -
  let ?rs = "order_by_timestamp_desc (news db)"
  have g: "getNews env db [] = (Slice (map item_of_row ?rs), None)"
    using getNews_ok [OF assms(1,2), of db "[]"] by simp
  have q1: "values_Get (Form r1) ''q'' = []" and q2: "values_Get (Form r2) ''q'' = []"
    using assms(4,6) by (simp_all add: values_Get_def)
  have h1: "searchHandler env db r1 =
      (\<lparr>status = 200, content_type = ''application/json'',
        body = JsonText (JArray (map marshal_item (map item_of_row ?rs)))\<rparr>, [])"
    using assms(3) g q1 by (simp add: searchHandler_def)
  have h2: "searchHandler env db r2 = searchHandler env db r1"
    using assms(3,5) q1 q2 by (simp add: searchHandler_def)
  show ?thesis
    using g h1 h2 mset_order_by [of "news db"] newest_first_order_by [of "news db"]
    by blast
qed

theorem getNews_empty_term_full_corpus_witness:
  "\<exists>rs. mset rs = mset (news example_db) \<and> newest_first rs
      \<and> getNews no_fault example_db [] = (Slice (map item_of_row rs), None)
      \<and> searchHandler no_fault example_db request_without_q =
          (\<lparr>status = 200, content_type = ''application/json'',
            body = JsonText (JArray (map marshal_item (map item_of_row rs)))\<rparr>, [])
      \<and> searchHandler no_fault example_db (request_q []) =
          searchHandler no_fault example_db request_without_q"
  using getNews_empty_term_full_corpus [of no_fault request_without_q "request_q []" "[]" example_db]
  by (simp add: no_fault_def request_without_q_def request_q_def)

lemma getNews_term_is_filter:
  assumes "query_fault env = None" and "iter_fault env = None" and "q \<noteq> []"
  shows "getNews env db q
           = (Slice (map item_of_row (order_by_timestamp_desc
                (filter (\<lambda>r. sublist q (row_title r)) (news db)))), None)"
proof -
  have "filter (\<lambda>r. instr (row_title r) q \<noteq> 0) (news db)
      = filter (\<lambda>r. sublist q (row_title r)) (news db)"
    using instr_sublist by (intro filter_cong) auto
  then show ?thesis
    using getNews_ok [OF assms(1,2), of db q] assms(3) by simp
qed



lemma getNews_success_faults:
  assumes "snd (getNews env db q) = None"
  shows "query_fault env = None \<and> iter_fault env = None"
  using assms
  by (auto simp: getNews_def sql_Query_def Let_def split: option.splits prod.splits)

lemma order_by_Nil: "order_by_timestamp_desc [] = []"
  by (simp add: order_by_timestamp_desc_def)

text \<open>
  C9. Whenever getNews reports no error, the slice it returns is not nil, and a
  response with status 200 carries a JSON array, never null; the array is empty
  when the table is empty or when no stored title contains the term.
\<close>

theorem getNews_success_non_nil:
  "(snd (getNews env db q) = None \<longrightarrow> (\<exists>xs. fst (getNews env db q) = Slice xs))
   \<and> (status (fst (searchHandler env db r)) = 200 \<longrightarrow>
        (\<exists>js. body (fst (searchHandler env db r)) = JsonText (JArray js))
        \<and> body (fst (searchHandler env db r)) \<noteq> JsonText JNull)
   \<and> (status (fst (searchHandler env db r)) = 200 \<longrightarrow>
        (news db = []
         \<or> values_Get (Form r) ''q'' \<noteq> []
            \<and> filter (\<lambda>x. sublist (values_Get (Form r) ''q'') (row_title x)) (news db) = []) \<longrightarrow>
        body (fst (searchHandler env db r)) = JsonText (JArray []))"
proof (intro conjI impI)
  assume "snd (getNews env db q) = None"
  then show "\<exists>xs. fst (getNews env db q) = Slice xs"
    using getNews_fst_cases [of env db q] by auto
next
  assume ok: "status (fst (searchHandler env db r)) = 200"
  let ?q = "values_Get (Form r) ''q''"
  from ok have pe: "parse_error r = None"
    by (auto simp: searchHandler_def http_Error_def split: option.splits)
  from ok pe have noerr: "snd (getNews env db ?q) = None"
    by (auto simp: searchHandler_def http_Error_def Let_def split: option.splits prod.splits)
  then obtain xs where xs: "fst (getNews env db ?q) = Slice xs"
    using getNews_fst_cases [of env db ?q] by auto
  have g: "getNews env db ?q = (Slice xs, None)"
    using xs noerr by (simp add: prod_eq_iff)
  have b: "body (fst (searchHandler env db r)) = JsonText (JArray (map marshal_item xs))"
    using pe g by (simp add: searchHandler_def)
  show "\<exists>js. body (fst (searchHandler env db r)) = JsonText (JArray js)"
    using b by blast
  show "body (fst (searchHandler env db r)) \<noteq> JsonText JNull"
    using b by simp
  assume e: "news db = []
      \<or> ?q \<noteq> [] \<and> filter (\<lambda>x. sublist ?q (row_title x)) (news db) = []"
  have f: "query_fault env = None" "iter_fault env = None"
    using getNews_success_faults [OF noerr] by simp_all
  have sel: "select_rows (if ?q \<noteq> [] then SelectMatching else SelectAll) ?q db = []"
  proof (cases "news db = []")
    case True
    then show ?thesis by (simp add: order_by_Nil)
  next
    case False
    with e have q: "?q \<noteq> []"
      and n: "filter (\<lambda>x. sublist ?q (row_title x)) (news db) = []"
      by simp_all
    have "filter (\<lambda>x. instr (row_title x) ?q \<noteq> 0) (news db)
        = filter (\<lambda>x. sublist ?q (row_title x)) (news db)"
      using instr_sublist by (intro filter_cong) auto
    then show ?thesis
      using q n by (simp add: order_by_Nil)
  qed
  have "xs = []"
    using g getNews_ok [OF f, of db ?q] sel by simp
  then show "body (fst (searchHandler env db r)) = JsonText (JArray [])"
    using b by simp
qed

theorem getNews_success_non_nil_witness:
  "(\<exists>xs. fst (getNews no_fault example_db ''x'') = Slice xs)
   \<and> (\<exists>js. body (fst (searchHandler no_fault example_db (request_q ''x''))) = JsonText (JArray js))
   \<and> body (fst (searchHandler no_fault example_db (request_q ''x''))) \<noteq> JsonText JNull
   \<and> body (fst (searchHandler no_fault example_db (request_q ''x''))) = JsonText (JArray [])"
proof -
  have q: "values_Get (Form (request_q ''x'')) ''q'' = ''x''"
    by (simp add: request_q_def values_Get_def)
  have n: "filter (\<lambda>r. sublist ''x'' (row_title r)) (news example_db) = []"
    by (simp add: example_db_def sublist_Cons_right)
  have g: "getNews no_fault example_db ''x'' = (Slice [], None)"
    using getNews_term_is_filter [of no_fault "''x''" example_db] n
    by (simp add: no_fault_def order_by_Nil)
  have s: "status (fst (searchHandler no_fault example_db (request_q ''x''))) = 200"
    using g q by (simp add: searchHandler_def request_q_def)
  show ?thesis
    using getNews_success_non_nil [of no_fault example_db "''x''" "request_q ''x''"] g s q n
    by simp
qed

subsection \<open>Insertion\<close>

lemma sql_insert_fresh:
  assumes "fault e = None" and "l \<notin> set (links db)"
  shows "sql_insert e db l t =
           Inr (db\<lparr>news := news db @
                  [\<lparr>row_id = Suc (seq db), row_link = l, row_title = t, row_timestamp = now e\<rparr>],
                seq := Suc (seq db)\<rparr>)"
  using assms by (simp add: sql_insert_def)

lemma sql_insert_present:
  assumes "fault e = None" and "l \<in> set (links db)"
  shows "sql_insert e db l t = Inl (UniqueConstraintFailed ''news.link'')"
  using assms by (simp add: sql_insert_def)

lemma filter_link_fresh:
  "l \<notin> set (map row_link rs) \<Longrightarrow> filter (\<lambda>r. row_link r = l) rs = []"
  by (induction rs) auto

lemma filter_link_distinct:
  "distinct (map row_link rs) \<Longrightarrow> l \<in> set (map row_link rs)
     \<Longrightarrow> length (filter (\<lambda>r. row_link r = l) rs) = 1"
proof (induction rs)
  case Nil
  then show ?case by simp
next
  case (Cons r rs)
  show ?case
  proof (cases "row_link r = l")
    case True
    with Cons.prems have "l \<notin> set (map row_link rs)" by auto
    then have "filter (\<lambda>r. row_link r = l) rs = []" by (rule filter_link_fresh)
    with True show ?thesis by simp
  next
    case False
    with Cons show ?thesis by auto
  qed
qed

lemma insertNewsItem_distinct:
  "distinct (links db) \<Longrightarrow> distinct (links (fst (insertNewsItem e db x)))"
  by (auto simp: insertNewsItem_def sql_insert_def links_def split: option.splits)

text \<open>
  C5 as the claim states it fails in one point: the second insert of the same item
  is reported as an error. On the empty table, inserting an item at second 1 and
  again at second 2 makes the second call return the wrapped UNIQUE failure.
\<close>

theorem insert_duplicate_is_error:
  "snd (insertNewsItem (at_time 2) (fst (insertNewsItem (at_time 1) empty_db example_item))
          example_item)
   = Some (InsertFailed ''http://example.com/a'' ''Alpha news''
             (UniqueConstraintFailed ''news.link''))"
  by (simp add: insertNewsItem_def sql_insert_def at_time_def empty_db_def example_item_def
      links_def)

text \<open>
  C5, amended. Let the engine itself not fail and the links of the table be
  distinct (the UNIQUE constraint). Inserting x twice leaves exactly one row for
  the link of x; the second call returns the error InsertFailed wrapping the
  UNIQUE failure and leaves the database as the first call left it. When the link
  was new, the first call succeeds and the one row is the row it wrote, with the
  timestamp of the first call; when the link was stored already, the first call
  fails in the same way and the table is unchanged.
\<close>

theorem insert_twice_one_row:
  assumes "fault e1 = None" and "fault e2 = None" and "distinct (links db)"
  shows "snd (insertNewsItem e2 (fst (insertNewsItem e1 db x)) x)
           = Some (InsertFailed (Link x) (Title x) (UniqueConstraintFailed ''news.link''))
       \<and> fst (insertNewsItem e2 (fst (insertNewsItem e1 db x)) x) = fst (insertNewsItem e1 db x)
       \<and> length (filter (\<lambda>r. row_link r = Link x)
                  (news (fst (insertNewsItem e2 (fst (insertNewsItem e1 db x)) x)))) = 1
       \<and> (Link x \<notin> set (links db) \<longrightarrow>
            snd (insertNewsItem e1 db x) = None
            \<and> filter (\<lambda>r. row_link r = Link x) (news (fst (insertNewsItem e1 db x)))
                = [\<lparr>row_id = Suc (seq db), row_link = Link x, row_title = Title x,
                    row_timestamp = now e1\<rparr>])
       \<and> (Link x \<in> set (links db) \<longrightarrow>
            insertNewsItem e1 db x
              = (db, Some (InsertFailed (Link x) (Title x) (UniqueConstraintFailed ''news.link''))))"
proof -
  let ?db1 = "fst (insertNewsItem e1 db x)"
  have in1: "Link x \<in> set (links ?db1)"
    using assms(1) by (auto simp: insertNewsItem_def sql_insert_def links_def)
  have second: "insertNewsItem e2 ?db1 x
      = (?db1, Some (InsertFailed (Link x) (Title x) (UniqueConstraintFailed ''news.link'')))"
    using sql_insert_present [OF assms(2) in1] by (simp add: insertNewsItem_def)
  have d1: "distinct (map row_link (news ?db1))"
    using insertNewsItem_distinct [OF assms(3), of e1 x] by (simp add: links_def)
  have one: "length (filter (\<lambda>r. row_link r = Link x) (news ?db1)) = 1"
    using filter_link_distinct [OF d1] in1 by (simp add: links_def)
  have fresh: "Link x \<notin> set (links db) \<Longrightarrow>
      snd (insertNewsItem e1 db x) = None
      \<and> filter (\<lambda>r. row_link r = Link x) (news ?db1)
          = [\<lparr>row_id = Suc (seq db), row_link = Link x, row_title = Title x,
              row_timestamp = now e1\<rparr>]"
  proof -
    assume n: "Link x \<notin> set (links db)"
    have f: "filter (\<lambda>r. row_link r = Link x) (news db) = []"
      using n filter_link_fresh [of "Link x" "news db"] by (simp add: links_def)
    show ?thesis
      using sql_insert_fresh [OF assms(1) n] f by (simp add: insertNewsItem_def)
  qed
  have present: "Link x \<in> set (links db) \<Longrightarrow>
      insertNewsItem e1 db x
        = (db, Some (InsertFailed (Link x) (Title x) (UniqueConstraintFailed ''news.link'')))"
    using sql_insert_present [OF assms(1)] by (simp add: insertNewsItem_def)
  show ?thesis
    using second one fresh present by simp
qed

theorem insert_twice_one_row_witness:
  "snd (insertNewsItem (at_time 2) (fst (insertNewsItem (at_time 1) empty_db example_item))
          example_item)
     = Some (InsertFailed (Link example_item) (Title example_item)
               (UniqueConstraintFailed ''news.link''))
   \<and> fst (insertNewsItem (at_time 2) (fst (insertNewsItem (at_time 1) empty_db example_item))
          example_item)
     = fst (insertNewsItem (at_time 1) empty_db example_item)
   \<and> length (filter (\<lambda>r. row_link r = Link example_item)
        (news (fst (insertNewsItem (at_time 2)
                 (fst (insertNewsItem (at_time 1) empty_db example_item)) example_item)))) = 1
   \<and> snd (insertNewsItem (at_time 1) empty_db example_item) = None
   \<and> filter (\<lambda>r. row_link r = Link example_item)
        (news (fst (insertNewsItem (at_time 1) empty_db example_item)))
     = [\<lparr>row_id = 1, row_link = ''http://example.com/a'', row_title = ''Alpha news'',
         row_timestamp = 1\<rparr>]
   \<and> insertNewsItem (at_time 1) example_db example_item
     = (example_db, Some (InsertFailed (Link example_item) (Title example_item)
                            (UniqueConstraintFailed ''news.link'')))
   \<and> length (filter (\<lambda>r. row_link r = Link example_item)
        (news (fst (insertNewsItem (at_time 2)
                 (fst (insertNewsItem (at_time 1) example_db example_item)) example_item)))) = 1"
proof -
  have a: "fault (at_time 1) = None" "fault (at_time 2) = None"
    by (simp_all add: at_time_def)
  have d: "distinct (links empty_db)" and n: "Link example_item \<notin> set (links empty_db)"
    by (simp_all add: links_def empty_db_def)
  have d': "distinct (links example_db)" and n': "Link example_item \<in> set (links example_db)"
    by (simp_all add: links_def example_db_def example_item_def)
  have v: "seq empty_db = 0" "now (at_time 1) = 1"
      "Link example_item = ''http://example.com/a''" "Title example_item = ''Alpha news''"
    by (simp_all add: empty_db_def at_time_def example_item_def)
  have fresh: "snd (insertNewsItem (at_time 2)
          (fst (insertNewsItem (at_time 1) empty_db example_item)) example_item)
        = Some (InsertFailed (Link example_item) (Title example_item)
                  (UniqueConstraintFailed ''news.link''))
      \<and> fst (insertNewsItem (at_time 2)
          (fst (insertNewsItem (at_time 1) empty_db example_item)) example_item)
        = fst (insertNewsItem (at_time 1) empty_db example_item)
      \<and> length (filter (\<lambda>r. row_link r = Link example_item)
          (news (fst (insertNewsItem (at_time 2)
                   (fst (insertNewsItem (at_time 1) empty_db example_item)) example_item)))) = 1
      \<and> snd (insertNewsItem (at_time 1) empty_db example_item) = None
      \<and> filter (\<lambda>r. row_link r = Link example_item)
          (news (fst (insertNewsItem (at_time 1) empty_db example_item)))
        = [\<lparr>row_id = 1, row_link = ''http://example.com/a'', row_title = ''Alpha news'',
            row_timestamp = 1\<rparr>]"
    using insert_twice_one_row [OF a d, of example_item] n
    unfolding v by simp
  have present: "insertNewsItem (at_time 1) example_db example_item
        = (example_db, Some (InsertFailed (Link example_item) (Title example_item)
                               (UniqueConstraintFailed ''news.link'')))
      \<and> length (filter (\<lambda>r. row_link r = Link example_item)
          (news (fst (insertNewsItem (at_time 2)
                   (fst (insertNewsItem (at_time 1) example_db example_item)) example_item)))) = 1"
    using insert_twice_one_row [OF a d', of example_item] n' by blast
  show ?thesis
    using fresh present by blast
qed

section \<open>Properties of URL normalization\<close>






section \<open>Properties of the extraction pipeline and of a cycle\<close>


lemma loadNodes_bad_link:
  assumes "n \<in> set nodes"
    and "extractEntity hq n (LinkRule rule) = Return (l, lg1)"
    and "convertToAbsURL (URL rule) l = Inl e"
  shows "loadNodes hq rule nodes items lg = Panic
       \<or> (\<exists>err lg'. loadNodes hq rule nodes items lg = Return ((nil_slice, Some err), lg'))"
  using assms(1)
proof (induction nodes arbitrary: items lg)
  case Nil
  then show ?case by simp
next
  case (Cons m nodes)
  show ?case
  proof (cases "m = n")
    case True
    then show ?thesis
      using assms(2,3) by (auto split: may_panic.splits)
  next
    case False
    with Cons.prems have "n \<in> set nodes" by simp
    then show ?thesis
      using Cons.IH by (auto split: may_panic.splits sum.splits)
  qed
qed


lemma insertItems_nil: "insertItems envs k [] d lg = (d, lg)"
  by simp

lemma updateNews_error:
  assumes "loadNewsList hq rule (page w) = Return ((items, Some err), lg)"
  shows "updateNews hq rule w a = a\<lparr>app_log := app_log a @ lg @ [LogFatal err], app_state := Exited 1\<rparr>"
  using assms by (simp add: updateNews_def)

lemma run_ticks_ended: "app_state a \<noteq> Running \<Longrightarrow> run_ticks hq rule ws a = a"
  by (cases ws) simp_all

text \<open>
  C2 as the claim states it fails. The example page has two item nodes; the link of
  the first resolves, the link of the second (\<open>:bad\<close>) does not parse.
  loadNewsList returns nil and the error, and the cycle stores nothing: the first
  item is lost with the second.
\<close>

theorem bad_link_drops_whole_page:
  "convertToAbsURL (URL example_rule) ''article/1'' = Inr ''http://example.com/news/article/1''
   \<and> loadNewsList example_hq example_rule (Inr bad_link_page)
       = Return ((nil_slice,
            Some (ConvertError [] ''http://example.com/news/index.html''
                    (ParseError '':bad'' MissingProtocolScheme))), [])
   \<and> news (app_db (updateNews example_hq example_rule (cycle_with (Inr bad_link_page)) example_app))
       = []"
  by code_simp

text \<open>
  C2, amended. If the link extracted from one item node of the page cannot be
  normalized, loadNewsList produces no item at all: it returns nil with an error
  (or a panic has ended the process before), and the cycle leaves the database
  unchanged and the process no longer running.
\<close>

theorem bad_link_aborts_batch:
  assumes "Find hq doc (NewsNodesXPathExpr rule) = Some nodes"
    and "n \<in> set nodes"
    and "extractEntity hq n (LinkRule rule) = Return (l, lg1)"
    and "convertToAbsURL (URL rule) l = Inl e"
    and "page w = Inr doc"
  shows "(loadNewsList hq rule (Inr doc) = Panic
          \<or> (\<exists>err lg. loadNewsList hq rule (Inr doc) = Return ((nil_slice, Some err), lg)))
       \<and> app_db (updateNews hq rule w a) = app_db a
       \<and> (app_state (updateNews hq rule w a) = Panicked
          \<or> app_state (updateNews hq rule w a) = Exited 1)"
proof -
  have l: "loadNewsList hq rule (Inr doc) = loadNodes hq rule nodes nil_slice []"
    using assms(1) by (simp add: loadNewsList_def)
  have c: "loadNewsList hq rule (Inr doc) = Panic
      \<or> (\<exists>err lg. loadNewsList hq rule (Inr doc) = Return ((nil_slice, Some err), lg))"
    unfolding l using loadNodes_bad_link [OF assms(2,3,4)] by blast
  then show ?thesis
    using assms(5) by (auto simp: updateNews_def)
qed

theorem bad_link_aborts_batch_witness:
  "(loadNewsList example_hq example_rule (Inr bad_link_page) = Panic
    \<or> (\<exists>err lg. loadNewsList example_hq example_rule (Inr bad_link_page)
                   = Return ((nil_slice, Some err), lg)))
   \<and> app_db (updateNews example_hq example_rule (cycle_with (Inr bad_link_page)) example_app)
       = app_db example_app
   \<and> (app_state (updateNews example_hq example_rule (cycle_with (Inr bad_link_page)) example_app)
        = Panicked
      \<or> app_state (updateNews example_hq example_rule (cycle_with (Inr bad_link_page)) example_app)
        = Exited 1)"
proof -
  let ?n = "item_node '':bad'' ''Second''"
  have f: "Find example_hq bad_link_page (NewsNodesXPathExpr example_rule)
      = Some [item_node ''article/1'' ''First'', ?n]"
    by code_simp
  have m: "?n \<in> set [item_node ''article/1'' ''First'', ?n]"
    by simp
  have x: "extractEntity example_hq ?n (LinkRule example_rule) = Return ('':bad'', [])"
    by code_simp
  have c: "convertToAbsURL (URL example_rule) '':bad''
      = Inl (ParseError '':bad'' MissingProtocolScheme)"
    by code_simp
  have p: "page (cycle_with (Inr bad_link_page)) = Inr bad_link_page"
    by (simp add: cycle_with_def)
  show ?thesis
    using bad_link_aborts_batch [OF f m x c p, of example_app] .
qed

text \<open>
  C1 as the claim states it fails. The first cycle of the example task cannot fetch
  its page; the page of the next firing is fine and would store two items. The
  process has exited, and nothing was stored.
\<close>

theorem fetch_failure_ends_process:
  "app_state (updateNewsPeriodically example_hq example_rule
       (cycle_with (Inl ''connection refused'')) [cycle_with (Inr good_page)] example_app)
     = Exited 1
   \<and> news (app_db (updateNewsPeriodically example_hq example_rule
       (cycle_with (Inl ''connection refused'')) [cycle_with (Inr good_page)] example_app))
     = []
   \<and> length (news (app_db (updateNews example_hq example_rule
       (cycle_with (Inr good_page)) example_app))) = 2"
  by code_simp

text \<open>
  C1, amended. If loadNewsList returns an error in a cycle (the fetch failed, or a
  link could not be normalized), updateNews logs the error with log.Fatal: the
  database is unchanged, the process has exited with status 1, and no later firing
  of the task runs, whatever the world would have supplied to it. A failed fetch
  is such an error.
\<close>

theorem fetch_failure_is_fatal:
  assumes "loadNewsList hq rule (page w) = Return ((items, Some err), lg)"
  shows "updateNews hq rule w a
           = a\<lparr>app_log := app_log a @ lg @ [LogFatal err], app_state := Exited 1\<rparr>
       \<and> app_db (updateNews hq rule w a) = app_db a
       \<and> run_ticks hq rule ws (updateNews hq rule w a) = updateNews hq rule w a
       \<and> updateNewsPeriodically hq rule w ws a = updateNews hq rule w a
       \<and> (app_state a = Running \<longrightarrow> run_ticks hq rule (w # ws) a = updateNews hq rule w a)
       \<and> (\<forall>m. page w = Inl m \<longrightarrow> err = LoadURLError m \<and> items = nil_slice \<and> lg = [])"
proof -
  let ?a' = "updateNews hq rule w a"
  have u: "?a' = a\<lparr>app_log := app_log a @ lg @ [LogFatal err], app_state := Exited 1\<rparr>"
    using assms by (rule updateNews_error)
  have s: "app_state ?a' \<noteq> Running"
    unfolding u by simp
  have r: "run_ticks hq rule ws ?a' = ?a'"
    using s by (rule run_ticks_ended)
  have p: "updateNewsPeriodically hq rule w ws a = ?a'"
    using s by (simp add: updateNewsPeriodically_def Let_def)
  have t: "app_state a = Running \<Longrightarrow> run_ticks hq rule (w # ws) a = ?a'"
    using r by simp
  have f: "\<And>m. page w = Inl m \<Longrightarrow> err = LoadURLError m \<and> items = nil_slice \<and> lg = []"
    using assms by (simp add: loadNewsList_def)
  show ?thesis
    using u r p t f by simp
qed

theorem fetch_failure_is_fatal_witness:
  "updateNews example_hq example_rule (cycle_with (Inl ''connection refused'')) example_app
     = example_app\<lparr>app_log := [LogFatal (LoadURLError ''connection refused'')],
                   app_state := Exited 1\<rparr>
   \<and> run_ticks example_hq example_rule [cycle_with (Inr good_page)]
       (updateNews example_hq example_rule (cycle_with (Inl ''connection refused'')) example_app)
     = updateNews example_hq example_rule (cycle_with (Inl ''connection refused'')) example_app
   \<and> updateNewsPeriodically example_hq example_rule (cycle_with (Inl ''connection refused''))
       [cycle_with (Inr good_page)] example_app
     = updateNews example_hq example_rule (cycle_with (Inl ''connection refused'')) example_app
   \<and> run_ticks example_hq example_rule
       [cycle_with (Inl ''connection refused''), cycle_with (Inr good_page)] example_app
     = updateNews example_hq example_rule (cycle_with (Inl ''connection refused'')) example_app"
proof -
  let ?w = "cycle_with (Inl ''connection refused'')"
  have l: "loadNewsList example_hq example_rule (page ?w)
      = Return ((nil_slice, Some (LoadURLError ''connection refused'')), [])"
    by (simp add: loadNewsList_def cycle_with_def)
  have e: "app_log example_app = []" "app_state example_app = Running"
    by (simp_all add: example_app_def)
  have p: "page ?w = Inl ''connection refused''"
    by (simp add: cycle_with_def)
  show ?thesis
    using fetch_failure_is_fatal [OF l, of example_app "[cycle_with (Inr good_page)]"] e p
    by simp
qed



section \<open>Properties of rule loading\<close>











section \<open>Resolving the empty link\<close>


























section \<open>Further properties\<close>

text \<open>
  convertToAbsURL resolves the reference examples of RFC 3986, section 5.4.1,
  against the base \<open>http://a/b/c/d;p?q\<close> as the RFC lists them.
\<close>

theorem convertToAbsURL_rfc3986_examples:
  "map (convertToAbsURL ''http://a/b/c/d;p?q'')
     [''g'', ''./g'', ''g/'', ''/g'', ''//g'', ''?y'', ''g?y'', ''#s'', ''g#s'', ''g?y#s'',
      '';x'', ''g;x'', ''g;x?y#s'', ''.'', ''./'', ''..'', ''../'', ''../g'', ''../..'',
      ''../../'', ''../../g'']
   = map Inr
     [''http://a/b/c/g'', ''http://a/b/c/g'', ''http://a/b/c/g/'', ''http://a/g'', ''http://g'',
      ''http://a/b/c/d;p?y'', ''http://a/b/c/g?y'', ''http://a/b/c/d;p?q#s'',
      ''http://a/b/c/g#s'', ''http://a/b/c/g?y#s'', ''http://a/b/c/;x'', ''http://a/b/c/g;x'',
      ''http://a/b/c/g;x?y#s'', ''http://a/b/c/'', ''http://a/b/c/'', ''http://a/b/'',
      ''http://a/b/'', ''http://a/b/g'', ''http://a/'', ''http://a/'', ''http://a/g'']"
  by code_simp

lemma insertNewsItem_links:
  "set (links d) \<subseteq> set (links (fst (insertNewsItem e d x)))"
  "fault e = None \<Longrightarrow> Link x \<in> set (links (fst (insertNewsItem e d x)))"
  by (auto simp: insertNewsItem_def sql_insert_def links_def split: option.splits)

lemma insertItems_Cons:
  "\<exists>lg'. insertItems envs k (x # items) d lg
            = insertItems envs (Suc k) items (fst (insertNewsItem (envs k) d x)) lg'"
  by (cases "insertNewsItem (envs k) d x") (auto split: option.splits)

lemma insertItems_links:
  assumes "\<forall>j. fault (envs j) = None"
  shows "set (links d) \<union> set (map Link items) \<subseteq> set (links (fst (insertItems envs k items d lg)))"
proof (induction items arbitrary: k d lg)
  case Nil
  show ?case by simp
next
  case (Cons x items)
  let ?d' = "fst (insertNewsItem (envs k) d x)"
  have a: "set (links d) \<subseteq> set (links ?d')" and b: "Link x \<in> set (links ?d')"
    using insertNewsItem_links [where d = d and e = "envs k" and x = x] assms by simp_all
  obtain lg' where "insertItems envs k (x # items) d lg = insertItems envs (Suc k) items ?d' lg'"
    using insertItems_Cons by blast
  then show ?case
    using Cons.IH [of ?d' "Suc k" lg'] a b by auto
qed

text \<open>
  In a cycle whose extraction succeeded, a failed insert of one item does not
  keep the other items from being stored: when the engine itself does not fail,
  the link of every extracted item is in the table after the cycle, every link
  stored before is still there, and the process state is unchanged.
\<close>

theorem updateNews_stores_every_link:
  assumes "loadNewsList hq rule (page w) = Return ((items, None), lg)"
    and "\<forall>j. fault (stmt_env w j) = None"
  shows "set (links (app_db a)) \<union> set (map Link (range_slice items))
           \<subseteq> set (links (app_db (updateNews hq rule w a)))
       \<and> app_state (updateNews hq rule w a) = app_state a"
proof -
  obtain d' lg' where i: "insertItems (stmt_env w) 0 (range_slice items) (app_db a) (app_log a @ lg)
      = (d', lg')"
    by (cases "insertItems (stmt_env w) 0 (range_slice items) (app_db a) (app_log a @ lg)") auto
  have u: "updateNews hq rule w a = a\<lparr>app_db := d', app_log := lg'\<rparr>"
    using assms(1) i by (simp add: updateNews_def)
  show ?thesis
    using insertItems_links [OF assms(2), of "app_db a" "range_slice items" 0 "app_log a @ lg"] i
    unfolding u by simp
qed

theorem updateNews_stores_every_link_witness:
  "set (links (app_db (example_app\<lparr>app_db := example_db\<rparr>)))
     \<union> set (map Link (range_slice (Slice
          [\<lparr>Link = ''http://example.com/news/article/1'', Title = ''First''\<rparr>,
           \<lparr>Link = ''http://other.com/x'', Title = ''Second''\<rparr>])))
     \<subseteq> set (links (app_db (updateNews example_hq example_rule (cycle_with (Inr good_page))
          (example_app\<lparr>app_db := example_db\<rparr>))))
   \<and> app_state (updateNews example_hq example_rule (cycle_with (Inr good_page))
        (example_app\<lparr>app_db := example_db\<rparr>))
     = app_state (example_app\<lparr>app_db := example_db\<rparr>)"
proof -
  have l: "loadNewsList example_hq example_rule (page (cycle_with (Inr good_page)))
      = Return ((Slice
          [\<lparr>Link = ''http://example.com/news/article/1'', Title = ''First''\<rparr>,
           \<lparr>Link = ''http://other.com/x'', Title = ''Second''\<rparr>], None), [])"
    by code_simp
  have f: "\<forall>j. fault (stmt_env (cycle_with (Inr good_page)) j) = None"
    by (simp add: cycle_with_def at_time_def)
  show ?thesis
    using updateNews_stores_every_link [OF l f] .
qed

lemma insertItems_distinct:
  "distinct (links d) \<Longrightarrow> distinct (links (fst (insertItems envs k items d lg)))"
proof (induction items arbitrary: k d lg)
  case Nil
  then show ?case by simp
next
  case (Cons x items)
  let ?d' = "fst (insertNewsItem (envs k) d x)"
  have d: "distinct (links ?d')"
    using Cons.prems by (rule insertNewsItem_distinct)
  obtain lg' where "insertItems envs k (x # items) d lg = insertItems envs (Suc k) items ?d' lg'"
    using insertItems_Cons by blast
  then show ?case
    using Cons.IH [OF d, of "Suc k" lg'] by simp
qed

text \<open>
  The links of the table stay pairwise distinct through every cycle, whatever
  the page and the engine do.
\<close>

theorem updateNews_keeps_links_distinct:
  assumes "distinct (links (app_db a))"
  shows "distinct (links (app_db (updateNews hq rule w a)))"
proof (cases "loadNewsList hq rule (page w)")
  case Panic
  then show ?thesis
    using assms by (simp add: updateNews_def)
next
  case (Return r)
  obtain items err lg where r: "r = ((items, err), lg)"
    by (cases r) auto
  show ?thesis
  proof (cases err)
    case (Some e)
    then show ?thesis
      using assms Return r by (simp add: updateNews_def)
  next
    case None
    obtain d' lg' where i: "insertItems (stmt_env w) 0 (range_slice items) (app_db a)
        (app_log a @ lg) = (d', lg')"
      by (cases "insertItems (stmt_env w) 0 (range_slice items) (app_db a) (app_log a @ lg)") auto
    have "distinct (links d')"
      using insertItems_distinct [OF assms, of "stmt_env w" 0 "range_slice items" "app_log a @ lg"] i
      by simp
    then show ?thesis
      using Return r None i by (simp add: updateNews_def)
  qed
qed

theorem updateNews_keeps_links_distinct_witness:
  "distinct (links (app_db (updateNews example_hq example_rule (cycle_with (Inr good_page))
      (example_app\<lparr>app_db := example_db\<rparr>))))"
proof -
  have "distinct (links (app_db (example_app\<lparr>app_db := example_db\<rparr>)))"
    by (simp add: example_db_def links_def)
  then show ?thesis
    by (rule updateNews_keeps_links_distinct)
qed

lemma newest_first_strict:
  "newest_first rs \<Longrightarrow> distinct (map row_timestamp rs)
     \<Longrightarrow> sorted_wrt (\<lambda>a b. row_timestamp b < row_timestamp a) rs"
  unfolding newest_first_def
proof (induction rs)
  case Nil
  show ?case by simp
next
  case (Cons r rs)
  have "row_timestamp x < row_timestamp r" if "x \<in> set rs" for x
  proof -
    from that Cons.prems have le: "row_timestamp x \<le> row_timestamp r"
      by simp
    from Cons.prems have "row_timestamp r \<notin> row_timestamp ` set rs"
      by simp
    with that have "row_timestamp x \<noteq> row_timestamp r"
      by (metis imageI)
    with le show ?thesis by simp
  qed
  then show ?case
    using Cons by simp
qed

text \<open>
  When the stored timestamps are pairwise distinct, getNews with the empty
  term lists the rows in strictly descending order of the timestamp.
\<close>

theorem getNews_strictly_descending:
  assumes "distinct (map row_timestamp (news db))"
    and "query_fault env = None" and "iter_fault env = None"
  shows "\<exists>rs. mset rs = mset (news db)
            \<and> sorted_wrt (\<lambda>a b. row_timestamp b < row_timestamp a) rs
            \<and> getNews env db [] = (Slice (map item_of_row rs), None)"
proof -
  let ?rs = "order_by_timestamp_desc (news db)"
  have m: "mset ?rs = mset (news db)"
    by (rule mset_order_by)
  then have "mset (map row_timestamp ?rs) = mset (map row_timestamp (news db))"
    by simp
  then have "distinct (map row_timestamp ?rs)"
    using assms(1) by (metis mset_eq_imp_distinct_iff)
  then have s: "sorted_wrt (\<lambda>a b. row_timestamp b < row_timestamp a) ?rs"
    using newest_first_order_by newest_first_strict by blast
  have "getNews env db [] = (Slice (map item_of_row ?rs), None)"
    using getNews_ok [OF assms(2,3), of db "[]"] by simp
  then show ?thesis
    using m s by blast
qed

theorem getNews_strictly_descending_witness:
  "\<exists>rs. mset rs = mset (news example_db)
      \<and> sorted_wrt (\<lambda>a b. row_timestamp b < row_timestamp a) rs
      \<and> getNews no_fault example_db [] = (Slice (map item_of_row rs), None)"
proof -
  have d: "distinct (map row_timestamp (news example_db))"
    by (simp add: example_db_def)
  have f: "query_fault no_fault = None" "iter_fault no_fault = None"
    by (simp_all add: no_fault_def)
  show ?thesis
    using getNews_strictly_descending [OF d f] .
qed


end
